theory Spec2Isabelle
  imports Main
begin

section \<open>The transport layer of pyadmitad (transport.py)\<close>

text \<open>
  The module is Python 2. Its strings are byte strings (\<open>string\<close>), \<open>None\<close> is the
  \<open>None\<close> of an option type, a dictionary with string keys is a map, an exception is a
  value of the type \<open>exn\<close> on the left of a sum, and a method that assigns attributes of
  \<open>self\<close> takes the object and returns it updated.
\<close>

subsection \<open>Values\<close>

text \<open>
  What \<open>response.json()\<close> returns. An object keeps its members in document order;
  numbers play no role in the transport and are kept as integers.
\<close>

datatype json =
    JNull
  | JBool bool
  | JNum int
  | JStr string
  | JArr "json list"
  | JObj "(string \<times> json) list"

text \<open>The response object of the HTTP library, as far as \<open>api_request\<close> reads it:
  \<open>status_code\<close>, and the parsed body (\<open>None\<close> when the body is not JSON, so that
  \<open>response.json()\<close> raises).\<close>

record response =
  status_code :: int
  body_json :: "json option"

text \<open>
  The exceptions. The first three are the library's: \<open>requests.HTTPError\<close> (a subclass of
  \<open>requests.RequestException\<close>, carrying the response it was raised for, if any), any
  other \<open>requests.RequestException\<close>, and \<open>simplejson.JSONDecodeError\<close>. The next four
  are the classes of \<open>pyadmitad.exceptions\<close> that the module raises; the spec calls them
  HttpError, ConnectionError, DecodeError and ApiError. The others are Python's built-in
  exceptions. \<open>OtherFormat\<close> is no exception: it stands for the result of a format
  directive that \<open>pyformat\<close> below does not describe.
\<close>

datatype exn =
    HTTPError "response option"
  | RequestException string
  | JSONDecodeError
  | HttpException int json exn
  | ConnectionException exn
  | JsonException exn
  | ApiException string
  | AttributeError string
  | KeyError string
  | ValueError string
  | TypeError string
  | OtherFormat

text \<open>Truth value of a string or \<open>None\<close>, and Python's \<open>x or d\<close> on them.\<close>

definition truthy :: "string option \<Rightarrow> bool" where
  "truthy v = (case v of None \<Rightarrow> False | Some s \<Rightarrow> s \<noteq> [])"

definition py_or :: "string option \<Rightarrow> string \<Rightarrow> string" where
  "py_or v d = (case v of None \<Rightarrow> d | Some s \<Rightarrow> if s = [] then d else s)"

text \<open>
  The constants of \<open>pyadmitad.constants\<close> that the module reads. Their values are not
  part of the module, so every function that reads one takes the record.
\<close>

record constants =
  DEFAULT_LANGUAGE :: string
  DEFAULT_REQUEST_TIMEOUT :: int
  TOKEN_URL :: string
  AUTHORIZE_URL :: string

subsection \<open>String formatting with a dictionary\<close>

text \<open>
  \<open>fmt % d\<close> for a format string and a dictionary of strings, as the interpreter scans
  it: left to right, one character at a time. Outside a directive a character is copied.
  After \<open>%\<close>: a second \<open>%\<close> gives one \<open>%\<close>; \<open>(\<close> opens a key, which runs to the
  matching \<open>)\<close> (nested parentheses are counted), is looked up at once (\<open>KeyError\<close> if
  absent) and is followed by the conversion; the conversion \<open>s\<close> inserts the value. A
  format string that ends inside a key or before the conversion is a \<open>ValueError\<close>.
  Flags, widths, precisions, length modifiers, the other conversions and directives
  without a key are not described: the interpreter formats some of them and raises for
  others, and here they give \<open>OtherFormat\<close>, which says neither. The theorems below
  that say what a formatted template is are stated for templates inside the described
  fragment, or under the hypothesis that the formatting gave a string.
\<close>

datatype fmt_state =
    Copy
  | Percent
  | Key nat string
  | Conv string

fun pyformat_from :: "fmt_state \<Rightarrow> (string \<rightharpoonup> string) \<Rightarrow> string \<Rightarrow> exn + string" where
  "pyformat_from Copy d [] = Inr []"
| "pyformat_from Copy d (c # cs) =
     (if c = CHR ''%'' then pyformat_from Percent d cs
      else map_sum id ((#) c) (pyformat_from Copy d cs))"
| "pyformat_from Percent d [] = Inl (ValueError ''incomplete format'')"
| "pyformat_from Percent d (c # cs) =
     (if c = CHR ''%'' then map_sum id ((#) CHR ''%'') (pyformat_from Copy d cs)
      else if c = CHR ''('' then pyformat_from (Key 0 []) d cs
      else Inl OtherFormat)"
| "pyformat_from (Key n acc) d [] = Inl (ValueError ''incomplete format key'')"
| "pyformat_from (Key n acc) d (c # cs) =
     (if c = CHR '')'' then
        (case n of
           0 \<Rightarrow> (case d (rev acc) of
                   None \<Rightarrow> Inl (KeyError (rev acc))
                 | Some v \<Rightarrow> pyformat_from (Conv v) d cs)
         | Suc m \<Rightarrow> pyformat_from (Key m (c # acc)) d cs)
      else if c = CHR ''('' then pyformat_from (Key (Suc n) (c # acc)) d cs
      else pyformat_from (Key n (c # acc)) d cs)"
| "pyformat_from (Conv v) d [] = Inl (ValueError ''incomplete format'')"
| "pyformat_from (Conv v) d (c # cs) =
     (if c = CHR ''s'' then map_sum id ((@) v) (pyformat_from Copy d cs)
      else Inl OtherFormat)"

definition pyformat :: "string \<Rightarrow> (string \<rightharpoonup> string) \<Rightarrow> exn + string" where
  "pyformat fmt d = pyformat_from Copy d fmt"

subsection \<open>Header and URL helpers\<close>

definition build_authorization_headers :: "string \<Rightarrow> (string \<rightharpoonup> string)" where
  "build_authorization_headers access_token =
     [''Authorization'' \<mapsto> ''Bearer '' @ access_token]"

definition build_headers :: "string \<Rightarrow> string option \<Rightarrow> (string \<rightharpoonup> string)" where
  "build_headers access_token user_agent =
     (let headers = (build_authorization_headers access_token)(''Connection'' \<mapsto> ''Keep-Alive'')
      in case user_agent of
           None \<Rightarrow> headers
         | Some ua \<Rightarrow> if ua = [] then headers else headers(''User-Agent'' \<mapsto> ua))"

text \<open>\<open>prepare_api_url(url, language)\<close>; the second definition is the call that leaves
  the argument out, so that it takes its default.\<close>

definition prepare_api_url :: "constants \<Rightarrow> string \<Rightarrow> string option \<Rightarrow> exn + string" where
  "prepare_api_url cs url lang =
     pyformat url [''language'' \<mapsto> py_or lang (DEFAULT_LANGUAGE cs)]"

definition prepare_api_url_default :: "constants \<Rightarrow> string \<Rightarrow> exn + string" where
  "prepare_api_url_default cs url = prepare_api_url cs url (Some (DEFAULT_LANGUAGE cs))"

text \<open>The words of the specification: a template is pieces of text with the placeholder
  between them, and substituting puts the language between the same pieces.\<close>

fun join :: "string \<Rightarrow> string list \<Rightarrow> string" where
  "join sep [] = []"
| "join sep [p] = p"
| "join sep (p # q # ps) = p @ sep @ join sep (q # ps)"

definition placeholder :: string where
  "placeholder = ''%(language)s''"

subsection \<open>The HTTP library and the network\<close>

text \<open>
  A dictionary passed as \<open>data\<close>: string keys, values that are strings or \<open>None\<close>; the
  argument itself may be \<open>None\<close>.
\<close>

type_synonym pydata = "(string \<rightharpoonup> string option) option"

text \<open>The keyword arguments \<open>prepare_request_data\<close> builds. The keys \<open>data\<close> and
  \<open>params\<close> are present only for the matching method: an absent key is the outer
  \<open>None\<close>.\<close>

record request_kwargs =
  rk_timeout :: int
  rk_data :: "pydata option"
  rk_params :: "pydata option"
  rk_headers :: "string \<rightharpoonup> string"
  rk_allow_redirects :: bool
  rk_verify :: bool

text \<open>One call \<open>requests.request(method, url, **kwargs)\<close>.\<close>

record http_request =
  rq_method :: string
  rq_url :: string
  rq_kwargs :: request_kwargs

text \<open>What the call does: it raises, or it returns a response.\<close>

datatype outcome = Raises exn | Returns response

text \<open>
  The network: the calls made so far, in order, and what the outside answers to a call
  given the calls before it. \<open>requests_request\<close> is the only function that touches it.
\<close>

record world =
  sent :: "http_request list"
  respond :: "http_request list \<Rightarrow> http_request \<Rightarrow> outcome"

definition requests_request :: "http_request \<Rightarrow> world \<Rightarrow> outcome \<times> world" where
  "requests_request rq w = (respond w (sent w) rq, w\<lparr>sent := sent w @ [rq]\<rparr>)"

text \<open>\<open>response.raise_for_status()\<close> of the library: an \<open>HTTPError\<close> carrying the
  response for a client error (400 to 499) or a server error (500 to 599), nothing
  otherwise.\<close>

definition raise_for_status :: "response \<Rightarrow> exn option" where
  "raise_for_status r =
     (if 400 \<le> status_code r \<and> status_code r < 600 then Some (HTTPError (Some r)) else None)"

subsection \<open>The executor\<close>

text \<open>The arguments of \<open>api_request\<close> after the URL, with their defaults.\<close>

record request_args =
  a_data :: pydata
  a_headers :: "(string \<rightharpoonup> string) option"
  a_method :: string
  a_timeout :: "int option"
  a_ssl_verify :: bool

definition default_args :: request_args where
  "default_args =
     \<lparr>a_data = None, a_headers = None, a_method = ''GET'', a_timeout = None,
      a_ssl_verify = False\<rparr>"

definition prepare_request_data :: "constants \<Rightarrow> request_args \<Rightarrow> request_kwargs" where
  "prepare_request_data cs a =
     \<lparr>rk_timeout = (case a_timeout a of None \<Rightarrow> DEFAULT_REQUEST_TIMEOUT cs | Some t \<Rightarrow> t),
      rk_data = (if a_method a = ''POST'' then Some (a_data a) else None),
      rk_params = (if a_method a = ''GET'' then Some (a_data a) else None),
      rk_headers = (case a_headers a of None \<Rightarrow> Map.empty | Some h \<Rightarrow> h),
      rk_allow_redirects = True,
      rk_verify = a_ssl_verify a\<rparr>"

text \<open>
  The \<open>except\<close> clauses of \<open>api_request\<close>, tried in the order written, with the values
  \<open>status_code\<close> (here \<open>sc\<close>) and \<open>content\<close> hold when the exception is raised. An exception of no
  listed class propagates as it is.
\<close>

fun api_request_except :: "int \<Rightarrow> json \<Rightarrow> exn \<Rightarrow> exn" where
  "api_request_except sc content (HTTPError r) =
     HttpException sc content (HTTPError r)"
| "api_request_except sc content (RequestException m) =
     ConnectionException (RequestException m)"
| "api_request_except sc content JSONDecodeError = JsonException JSONDecodeError"
| "api_request_except sc content e = e"

text \<open>
  \<open>api_request\<close>: \<open>status_code = 500\<close> and \<open>content = {}\<close> before the \<open>try\<close>; inside it
  the call, then \<open>status_code\<close>, then \<open>response.json()\<close>, then
  \<open>response.raise_for_status()\<close>, then the return.
\<close>

definition api_request ::
  "constants \<Rightarrow> string \<Rightarrow> request_args \<Rightarrow> world \<Rightarrow> (exn + json) \<times> world" where
  "api_request cs url a w =
     (let kwargs = prepare_request_data cs a;
          (out, w') = requests_request \<lparr>rq_method = a_method a, rq_url = url, rq_kwargs = kwargs\<rparr> w
      in case out of
           Raises e \<Rightarrow> (Inl (api_request_except 500 (JObj []) e), w')
         | Returns r \<Rightarrow>
             (case body_json r of
                None \<Rightarrow> (Inl (api_request_except (status_code r) (JObj []) JSONDecodeError), w')
              | Some content \<Rightarrow>
                  (case raise_for_status r of
                     Some e \<Rightarrow> (Inl (api_request_except (status_code r) content e), w')
                   | None \<Rightarrow> (Inr content, w'))))"

definition api_post_request ::
  "constants \<Rightarrow> string \<Rightarrow> request_args \<Rightarrow> world \<Rightarrow> (exn + json) \<times> world" where
  "api_post_request cs url a w = api_request cs url (a\<lparr>a_method := ''POST''\<rparr>) w"

definition api_get_request ::
  "constants \<Rightarrow> string \<Rightarrow> request_args \<Rightarrow> world \<Rightarrow> (exn + json) \<times> world" where
  "api_get_request cs url a w = api_request cs url (a\<lparr>a_method := ''GET''\<rparr>) w"

subsection \<open>Base64\<close>

text \<open>\<open>base64.b64encode\<close> on a byte string: three bytes give four characters of the
  standard alphabet, and a last group of one or two bytes is padded with \<open>=\<close>.\<close>

definition b64_alphabet :: string where
  "b64_alphabet = ''ABCDEFGHIJKLMNOPQRSTUVWXYZabcdefghijklmnopqrstuvwxyz0123456789+/''"

definition b64_char :: "nat \<Rightarrow> char" where
  "b64_char n = b64_alphabet ! (n mod 64)"

fun b64_groups :: "nat list \<Rightarrow> string" where
  "b64_groups [] = []"
| "b64_groups [a] =
     [b64_char (a div 4), b64_char ((a mod 4) * 16), CHR ''='', CHR ''='']"
| "b64_groups [a, b] =
     [b64_char (a div 4), b64_char ((a mod 4) * 16 + b div 16),
      b64_char ((b mod 16) * 4), CHR ''='']"
| "b64_groups (a # b # c # r) =
     [b64_char (a div 4), b64_char ((a mod 4) * 16 + b div 16),
      b64_char ((b mod 16) * 4 + c div 64), b64_char (c mod 64)] @ b64_groups r"

definition b64encode :: "string \<Rightarrow> string" where
  "b64encode s = b64_groups (map of_char s)"

subsection \<open>The password and client-credentials grants\<close>

text \<open>The argument \<open>data\<close> is a dictionary of strings; \<open>data[k]\<close> raises \<open>KeyError\<close>
  for an absent key. The keys are read in the order of the source.\<close>

definition form_content_type :: string where
  "form_content_type = ''application/x-www-form-urlencoded''"

definition basic_headers :: "string \<Rightarrow> string \<Rightarrow> (string \<rightharpoonup> string)" where
  "basic_headers cid secret =
     [''Content-Type'' \<mapsto> form_content_type,
      ''Authorization'' \<mapsto> ''Basic '' @ b64encode (cid @ '':'' @ secret)]"

definition oauth_password_authorization ::
  "constants \<Rightarrow> (string \<rightharpoonup> string) \<Rightarrow> world \<Rightarrow> (exn + json) \<times> world" where
  "oauth_password_authorization cs data w =
     (case data ''client_id'' of None \<Rightarrow> (Inl (KeyError ''client_id''), w) | Some cid \<Rightarrow>
     (case data ''client_secret'' of None \<Rightarrow> (Inl (KeyError ''client_secret''), w) | Some secret \<Rightarrow>
     (let lang = (case data ''language'' of None \<Rightarrow> DEFAULT_LANGUAGE cs | Some l \<Rightarrow> l) in
     (case data ''username'' of None \<Rightarrow> (Inl (KeyError ''username''), w) | Some username \<Rightarrow>
     (case data ''password'' of None \<Rightarrow> (Inl (KeyError ''password''), w) | Some password \<Rightarrow>
     (case data ''scopes'' of None \<Rightarrow> (Inl (KeyError ''scopes''), w) | Some scope \<Rightarrow>
     (let params = [''grant_type'' \<mapsto> Some ''password'',
                    ''client_id'' \<mapsto> Some cid,
                    ''username'' \<mapsto> Some username,
                    ''password'' \<mapsto> Some password,
                    ''scope'' \<mapsto> Some scope];
          headers = basic_headers cid secret
      in (case prepare_api_url cs (TOKEN_URL cs) (Some lang) of
            Inl e \<Rightarrow> (Inl e, w)
          | Inr u \<Rightarrow>
              api_post_request cs u
                (default_args\<lparr>a_data := Some params, a_headers := Some headers\<rparr>) w))))))))"

definition oauth_client_authorization ::
  "constants \<Rightarrow> (string \<rightharpoonup> string) \<Rightarrow> world \<Rightarrow> (exn + json) \<times> world" where
  "oauth_client_authorization cs data w =
     (case data ''client_id'' of None \<Rightarrow> (Inl (KeyError ''client_id''), w) | Some cid \<Rightarrow>
     (case data ''client_secret'' of None \<Rightarrow> (Inl (KeyError ''client_secret''), w) | Some secret \<Rightarrow>
     (let lang = (case data ''language'' of None \<Rightarrow> DEFAULT_LANGUAGE cs | Some l \<Rightarrow> l) in
     (case data ''scopes'' of None \<Rightarrow> (Inl (KeyError ''scopes''), w) | Some scope \<Rightarrow>
     (let params = [''grant_type'' \<mapsto> Some ''client_credentials'',
                    ''client_id'' \<mapsto> Some cid,
                    ''scope'' \<mapsto> Some scope];
          headers = basic_headers cid secret
      in (case prepare_api_url cs (TOKEN_URL cs) (Some lang) of
            Inl e \<Rightarrow> (Inl e, w)
          | Inr u \<Rightarrow>
              api_post_request cs u
                (default_args\<lparr>a_data := Some params, a_headers := Some headers\<rparr>) w))))))"

subsection \<open>The authorization-code flow\<close>

text \<open>The attributes of an \<open>OAuthServerAuthorisation\<close> object. \<open>redirect_uri\<close> comes
  from \<open>data.get\<close> and may be \<open>None\<close>; \<open>state\<close> is \<open>None\<close> until
  \<open>get_authorize_url\<close> stores a token.\<close>

record oauth =
  client_id :: string
  client_secret :: string
  scopes :: string
  redirect_uri :: "string option"
  language :: string
  state :: "string option"

definition OAuthServerAuthorisation_init ::
  "constants \<Rightarrow> (string \<rightharpoonup> string) \<Rightarrow> exn + oauth" where
  "OAuthServerAuthorisation_init cs data =
     (case data ''client_id'' of None \<Rightarrow> Inl (KeyError ''client_id'') | Some cid \<Rightarrow>
     (case data ''client_secret'' of None \<Rightarrow> Inl (KeyError ''client_secret'') | Some secret \<Rightarrow>
     (case data ''scopes'' of None \<Rightarrow> Inl (KeyError ''scopes'') | Some sc \<Rightarrow>
      Inr \<lparr>client_id = cid, client_secret = secret, scopes = sc,
           redirect_uri = data ''redirect_uri'',
           language = (case data ''language'' of None \<Rightarrow> DEFAULT_LANGUAGE cs | Some l \<Rightarrow> l),
           state = None\<rparr>)))"

text \<open>
  \<open>get_authorize_url\<close>. The fresh token \<open>uuid.uuid4().get_hex()\<close> is the argument
  \<open>hex\<close>, and \<open>urllib.urlencode\<close> is the argument \<open>urlencode\<close>. The token is stored
  before the URL is built, so it is stored also when building the URL raises.
\<close>

definition get_authorize_url ::
  "constants \<Rightarrow> ((string \<rightharpoonup> string option) \<Rightarrow> string) \<Rightarrow> string \<Rightarrow> oauth \<Rightarrow>
   (exn + string) \<times> oauth" where
  "get_authorize_url cs urlencode hex self =
     (let self' = self\<lparr>state := Some hex\<rparr>;
          params = [''client_id'' \<mapsto> Some (client_id self'),
                    ''response_type'' \<mapsto> Some ''code'',
                    ''state'' \<mapsto> state self',
                    ''scope'' \<mapsto> Some (scopes self'),
                    ''redirect_uri'' \<mapsto> redirect_uri self']
      in case prepare_api_url cs (AUTHORIZE_URL cs) (Some (language self')) of
           Inl e \<Rightarrow> (Inl e, self')
         | Inr u \<Rightarrow> (Inr (u @ ''?'' @ urlencode params), self'))"

text \<open>\<open>dict(pairs)\<close> for a list of pairs: a later pair with the same key wins.\<close>

definition dict_of :: "(string \<times> string) list \<Rightarrow> (string \<rightharpoonup> string)" where
  "dict_of pairs = map_of (rev pairs)"

text \<open>\<open>key in response\<close> for a parsed body: a key of an object, an element of an array,
  a substring of a string; a \<open>TypeError\<close> for the values that are not containers.\<close>

fun is_substring :: "string \<Rightarrow> string \<Rightarrow> bool" where
  "is_substring k [] = (k = [])"
| "is_substring k (c # cs) = (take (length k) (c # cs) = k \<or> is_substring k cs)"

fun py_in :: "string \<Rightarrow> json \<Rightarrow> exn + bool" where
  "py_in k (JObj kvs) = Inr (k \<in> fst ` set kvs)"
| "py_in k (JArr xs) = Inr (JStr k \<in> set xs)"
| "py_in k (JStr s) = Inr (is_substring k s)"
| "py_in k v = Inl (TypeError ''argument is not iterable'')"

text \<open>
  \<open>get_access_token\<close>. The argument \<open>pairs\<close> is the list
  \<open>urlparse.parse_qsl(urlparse.urlparse(url).query)\<close> of the URL the client was
  redirected to. The method assigns no attribute of \<open>self\<close>, so it returns its result
  and the network only.
\<close>

definition get_access_token ::
  "constants \<Rightarrow> oauth \<Rightarrow> (string \<times> string) list \<Rightarrow> world \<Rightarrow> (exn + json) \<times> world" where
  "get_access_token cs self pairs w =
     (let url_params = dict_of pairs;
          st = url_params ''state''
      in if \<not> truthy st \<or> st \<noteq> state self then
           (Inl (ApiException ''Wrong or absent the state parameter.''), w)
         else case url_params ''error'' of
           Some err \<Rightarrow> (Inl (ApiException err), w)
         | None \<Rightarrow>
             (case url_params ''code'' of
                None \<Rightarrow>
                  (Inl (ApiException ''Invalid response. The authorization code is absent.''), w)
              | Some code \<Rightarrow>
                  (let params = [''grant_type'' \<mapsto> Some ''authorization_code'',
                                 ''client_id'' \<mapsto> Some (client_id self),
                                 ''client_secret'' \<mapsto> Some (client_secret self),
                                 ''code'' \<mapsto> Some code,
                                 ''redirect_uri'' \<mapsto> redirect_uri self];
                       headers = [''Content-Type'' \<mapsto> form_content_type]
                   in case prepare_api_url cs (TOKEN_URL cs) (Some (language self)) of
                        Inl e \<Rightarrow> (Inl e, w)
                      | Inr u \<Rightarrow>
                          (case api_post_request cs u
                                  (default_args\<lparr>a_data := Some params, a_headers := Some headers\<rparr>) w of
                             (Inl e, w') \<Rightarrow> (Inl e, w')
                           | (Inr response, w') \<Rightarrow>
                               (case py_in ''access_token'' response of
                                  Inl e \<Rightarrow> (Inl e, w')
                                | Inr False \<Rightarrow>
                                    (Inl (ApiException
                                       ''Invalid response. The access_token is absent.''), w')
                                | Inr True \<Rightarrow> (Inr response, w'))))))"

subsection \<open>The request builder\<close>

text \<open>
  The attributes of an \<open>HttpTransport\<close> object that its methods assign: \<open>_headers\<close>,
  \<open>_method\<close>, \<open>_data\<close>, \<open>_url\<close> and \<open>_language\<close>. The attributes
  \<open>_supported_methods\<close> and \<open>_supported_languages\<close> are assigned in \<open>__init__\<close>
  only and are the two constants below.
\<close>

record transport =
  t_headers :: "string \<rightharpoonup> string"
  t_method :: string
  t_data :: pydata
  t_url :: "string option"
  t_language :: "string option"

definition supported_methods :: "string list" where
  "supported_methods = [''GET'', ''POST'']"

definition supported_languages :: "string list" where
  "supported_languages = [''ru'', ''en'', ''de'', ''pl'']"

definition HttpTransport_init :: "string \<Rightarrow> string option \<Rightarrow> string option \<Rightarrow> transport" where
  "HttpTransport_init access_token method_arg user_agent =
     \<lparr>t_headers = build_headers access_token user_agent,
      t_method = py_or method_arg ''GET'',
      t_data = None,
      t_url = None,
      t_language = None\<rparr>"

text \<open>A setter returns the exception it raises, if any, and the object as it is then;
  without an exception the value returned in the source is \<open>self\<close>, the object itself.\<close>

definition set_language :: "string \<Rightarrow> transport \<Rightarrow> exn option \<times> transport" where
  \<open>set_language lang t =
     (if lang \<in> set supported_languages then (None, t\<lparr>t_language := Some lang\<rparr>)
      else (Some (AttributeError (''This language "'' @ lang @ ''" is not supported'')), t))\<close>

definition set_url ::
  "constants \<Rightarrow> string \<Rightarrow> string option \<Rightarrow> transport \<Rightarrow> exn option \<times> transport" where
  "set_url cs url lang t =
     (case (case lang of
              None \<Rightarrow> (None, t)
            | Some l \<Rightarrow> if l = [] then (None, t) else set_language l t) of
        (Some e, t1) \<Rightarrow> (Some e, t1)
      | (None, t1) \<Rightarrow>
          (case prepare_api_url cs url lang of
             Inl e \<Rightarrow> (Some e, t1)
           | Inr u \<Rightarrow> (None, t1\<lparr>t_url := Some u\<rparr>)))"

definition set_data :: "pydata \<Rightarrow> transport \<Rightarrow> exn option \<times> transport" where
  "set_data data t = (None, t\<lparr>t_data := data\<rparr>)"

definition set_method :: "string \<Rightarrow> transport \<Rightarrow> exn option \<times> transport" where
  \<open>set_method m t =
     (if m \<in> set supported_methods then (None, t\<lparr>t_method := m\<rparr>)
      else (Some (AttributeError (''This http method "'' @ m @ ''" is not supported'')), t))\<close>

definition handle_response :: "json \<Rightarrow> json" where
  "handle_response response = response"

text \<open>\<open>__getattr__\<close>, which Python calls for an attribute the object does not have.\<close>

definition getattr_missing :: "string \<Rightarrow> transport \<Rightarrow> exn option \<times> transport" where
  "getattr_missing name t = set_method name t"

text \<open>The keyword arguments of \<open>__call__\<close> that it reads; \<open>None\<close> is an absent key.\<close>

record call_kwargs =
  kw_language :: "string option"
  kw_url :: "string option"
  kw_handler :: "(json \<Rightarrow> exn + json) option"

definition call ::
  "constants \<Rightarrow> call_kwargs \<Rightarrow> transport \<Rightarrow> world \<Rightarrow> (exn + json) \<times> transport \<times> world" where
  "call cs kw t w =
     (case (case kw_language kw of None \<Rightarrow> (None, t) | Some l \<Rightarrow> set_language l t) of
        (Some e, t1) \<Rightarrow> (Inl e, t1, w)
      | (None, t1) \<Rightarrow>
          (case (case kw_url kw of
                   None \<Rightarrow> (None, t1)
                 | Some u \<Rightarrow> set_url cs u (t_language t1) t1) of
             (Some e, t2) \<Rightarrow> (Inl e, t2, w)
           | (None, t2) \<Rightarrow>
               (if \<not> truthy (t_url t2) then
                  (Inl (AttributeError ''Absent url parameter. Use set_url method''), t2, w)
                else
                  (case api_request cs (the (t_url t2))
                          (default_args\<lparr>a_method := t_method t2,
                                         a_headers := Some (t_headers t2),
                                         a_data := t_data t2\<rparr>) w of
                     (Inl e, w') \<Rightarrow> (Inl e, t2, w')
                   | (Inr response, w') \<Rightarrow>
                       (case kw_handler kw of
                          Some handler \<Rightarrow> (handler response, t2, w')
                        | None \<Rightarrow> (Inr (handle_response response), t2, w'))))))"

text \<open>The class of an exception, for the two classes the claims name.\<close>

fun is_ApiException :: "exn \<Rightarrow> bool" where
  "is_ApiException (ApiException m) = True"
| "is_ApiException e = False"

fun is_AttributeError :: "exn \<Rightarrow> bool" where
  "is_AttributeError (AttributeError m) = True"
| "is_AttributeError e = False"

fun is_HttpException :: "exn \<Rightarrow> bool" where
  "is_HttpException (HttpException sc content cause) = True"
| "is_HttpException e = False"

definition raises :: "(exn \<Rightarrow> bool) \<Rightarrow> exn + 'a \<Rightarrow> bool" where
  "raises P r = (case r of Inl e \<Rightarrow> P e | Inr v \<Rightarrow> False)"

text \<open>The request that the three grants send: one \<open>POST\<close> of a form body to a URL,
  with the default timeout, redirects followed and certificate checks off.\<close>

definition token_request ::
  "constants \<Rightarrow> string \<Rightarrow> (string \<rightharpoonup> string option) \<Rightarrow> (string \<rightharpoonup> string) \<Rightarrow> http_request" where
  "token_request cs u params headers =
     \<lparr>rq_method = ''POST'', rq_url = u,
      rq_kwargs = \<lparr>rk_timeout = DEFAULT_REQUEST_TIMEOUT cs,
                   rk_data = Some (Some params), rk_params = None,
                   rk_headers = headers, rk_allow_redirects = True, rk_verify = False\<rparr>\<rparr>"

text \<open>A builder with its stored language blanked, to compare two builders apart from
  that attribute.\<close>

definition forget_language :: "transport \<Rightarrow> transport" where
  "forget_language t = t\<lparr>t_language := None\<rparr>"

subsection \<open>Concrete values for the examples\<close>

text \<open>One choice of the constants, and a network that has sent nothing yet and answers
  every call with the same status and body.\<close>

definition cs0 :: constants where
  "cs0 = \<lparr>DEFAULT_LANGUAGE = ''ru'', DEFAULT_REQUEST_TIMEOUT = 60,
          TOKEN_URL = ''https://api.admitad.com/%(language)s/token/'',
          AUTHORIZE_URL = ''https://api.admitad.com/%(language)s/authorize/''\<rparr>"

definition answering :: "int \<Rightarrow> json option \<Rightarrow> world" where
  "answering sc body =
     \<lparr>sent = [], respond = (\<lambda>before rq. Returns \<lparr>status_code = sc, body_json = body\<rparr>)\<rparr>"

text \<open>A token endpoint that answers with a token; the arguments of the three grants; an
  authorization object as \<open>__init__\<close> builds it; a stand-in for \<open>urllib.urlencode\<close>,
  whose result no property below reads.\<close>

definition token_world :: world where
  "token_world = answering 200 (Some (JObj [(''access_token'', JStr ''t0'')]))"

definition data0 :: "string \<rightharpoonup> string" where
  "data0 = [''client_id'' \<mapsto> ''id'', ''client_secret'' \<mapsto> ''secret'',
            ''scopes'' \<mapsto> ''public_data'', ''redirect_uri'' \<mapsto> ''https://example.com/cb'']"

definition grant_data :: "string \<rightharpoonup> string" where
  "grant_data = [''client_id'' \<mapsto> ''id'', ''client_secret'' \<mapsto> ''secret'',
                 ''username'' \<mapsto> ''user'', ''password'' \<mapsto> ''pass'',
                 ''scopes'' \<mapsto> ''public_data'']"

definition oauth0 :: oauth where
  "oauth0 = \<lparr>client_id = ''id'', client_secret = ''secret'', scopes = ''public_data'',
             redirect_uri = Some ''https://example.com/cb'', language = ''ru'', state = None\<rparr>"

definition urlencode0 :: "(string \<rightharpoonup> string option) \<Rightarrow> string" where
  "urlencode0 params = []"

text \<open>A builder on which \<open>set_language('de')\<close> has been called, and two option bags.\<close>

definition german_transport :: transport where
  "german_transport = snd (set_language ''de'' (HttpTransport_init ''token'' None None))"

definition url_kwargs :: "string \<Rightarrow> call_kwargs" where
  "url_kwargs url = \<lparr>kw_language = None, kw_url = Some url, kw_handler = None\<rparr>"

definition no_kwargs :: call_kwargs where
  "no_kwargs = \<lparr>kw_language = None, kw_url = None, kw_handler = None\<rparr>"

section \<open>Properties\<close>

subsection \<open>Formatting a URL template\<close>

lemma pyformat_copy:
  "CHR ''%'' \<notin> set p \<Longrightarrow>
   pyformat_from Copy d (p @ rest) = map_sum id ((@) p) (pyformat_from Copy d rest)"
proof (induction p)
  case Nil
  show ?case by (cases "pyformat_from Copy d rest") simp_all
next
  case (Cons c p)
  then have "c \<noteq> CHR ''%''" and "CHR ''%'' \<notin> set p" by auto
  with Cons.IH show ?case by (cases "pyformat_from Copy d rest") simp_all
qed

lemma pyformat_placeholder:
  "d ''language'' = Some v \<Longrightarrow>
   pyformat_from Copy d (placeholder @ rest) = map_sum id ((@) v) (pyformat_from Copy d rest)"
  by (simp add: placeholder_def)

lemma pyformat_join:
  assumes "d ''language'' = Some v"
  shows "\<forall>p\<in>set ps. CHR ''%'' \<notin> set p \<Longrightarrow>
         pyformat_from Copy d (join placeholder ps) = Inr (join v ps)"
proof (induction ps)
  case Nil
  show ?case by simp
next
  case (Cons p ps)
  show ?case
  proof (cases ps)
    case Nil
    with Cons.prems show ?thesis using pyformat_copy[of p d "[]"] by simp
  next
    case (Cons q qs)
    with Cons.prems Cons.IH show ?thesis
      using assms by (simp add: pyformat_copy pyformat_placeholder)
  qed
qed

text \<open>
  C5, as amended. For every template whose only \<open>%\<close> characters are those of
  \<open>%(language)s\<close> placeholders (pieces of text without \<open>%\<close>, joined by the placeholder)
  and every language, \<open>prepare_api_url\<close> returns the same pieces joined by the language
  when it is a non-empty string, and joined by \<open>DEFAULT_LANGUAGE\<close> when the language is
  \<open>None\<close>, empty or left out.
\<close>

theorem prepare_api_url_substitutes:
  assumes "\<forall>p\<in>set ps. CHR ''%'' \<notin> set p"
  shows "prepare_api_url cs (join placeholder ps) lang =
           Inr (join (if truthy lang then the lang else DEFAULT_LANGUAGE cs) ps)
         \<and> prepare_api_url_default cs (join placeholder ps) = Inr (join (DEFAULT_LANGUAGE cs) ps)"
proof -
  have a: "py_or lang (DEFAULT_LANGUAGE cs) = (if truthy lang then the lang else DEFAULT_LANGUAGE cs)"
    by (simp add: py_or_def truthy_def split: option.splits)
  have b: "py_or (Some (DEFAULT_LANGUAGE cs)) (DEFAULT_LANGUAGE cs) = DEFAULT_LANGUAGE cs"
    by (simp add: py_or_def)
  show ?thesis
    unfolding prepare_api_url_default_def prepare_api_url_def pyformat_def a b
    using pyformat_join[OF _ assms] by simp
qed

theorem prepare_api_url_substitutes_witness:
  "prepare_api_url cs0 ''https://api.admitad.com/%(language)s/token/'' (Some ''de'')
     = Inr ''https://api.admitad.com/de/token/''
   \<and> prepare_api_url cs0 ''https://api.admitad.com/%(language)s/token/'' None
     = Inr ''https://api.admitad.com/ru/token/''
   \<and> prepare_api_url cs0 ''https://api.admitad.com/%(language)s/token/'' (Some [])
     = Inr ''https://api.admitad.com/ru/token/''
   \<and> prepare_api_url_default cs0 ''https://api.admitad.com/%(language)s/token/''
     = Inr ''https://api.admitad.com/ru/token/''"
  using prepare_api_url_substitutes[of "[''https://api.admitad.com/'', ''/token/'']" cs0 "Some ''de''"]
        prepare_api_url_substitutes[of "[''https://api.admitad.com/'', ''/token/'']" cs0 "None"]
        prepare_api_url_substitutes[of "[''https://api.admitad.com/'', ''/token/'']" cs0 "Some []"]
  by (simp add: placeholder_def truthy_def cs0_def)

text \<open>
  C5 as stated fails: a template that contains the placeholder and a second directive,
  as the resource templates with \<open>%(id)s\<close> do, is not returned with the placeholder
  replaced; the formatting raises \<open>KeyError\<close> for the key that the dictionary lacks.
\<close>

theorem prepare_api_url_other_directive:
  "prepare_api_url cs0 ''%(language)s/announcements/%(id)s'' (Some ''en'') = Inl (KeyError ''id'')"
  by (simp add: prepare_api_url_def pyformat_def py_or_def)

subsection \<open>The setters of the request builder\<close>

text \<open>
  C2, as amended. \<open>set_method(m)\<close> stores \<open>m\<close> and returns the builder when \<open>m\<close> is
  \<open>GET\<close> or \<open>POST\<close>; for every other string it raises \<open>AttributeError\<close> (the built-in
  exception, not the module's \<open>ApiException\<close>) and leaves the builder, the stored method
  included, as it was.
\<close>

theorem set_method_cases:
  \<open>set_method m t =
     (if m = ''GET'' \<or> m = ''POST'' then (None, t\<lparr>t_method := m\<rparr>)
      else (Some (AttributeError (''This http method "'' @ m @ ''" is not supported'')), t))\<close>
  by (simp add: set_method_def supported_methods_def)

text \<open>C2 as stated fails: the exception for an unsupported method is not an
  \<open>ApiException\<close>.\<close>

theorem set_method_not_ApiException:
  \<open>set_method ''PUT'' (HttpTransport_init ''token'' None None)
     = (Some (AttributeError ''This http method "PUT" is not supported''),
        HttpTransport_init ''token'' None None)
   \<and> \<not> is_ApiException (AttributeError ''This http method "PUT" is not supported'')\<close>
  by (simp add: set_method_def supported_methods_def)

text \<open>
  C3, as amended. \<open>set_language(L)\<close> stores \<open>L\<close> and returns the builder when \<open>L\<close> is
  one of \<open>ru\<close>, \<open>en\<close>, \<open>de\<close>, \<open>pl\<close>; for every other string it raises \<open>AttributeError\<close>
  (not \<open>ApiException\<close>) and leaves the builder as it was.
\<close>

theorem set_language_cases:
  \<open>set_language l t =
     (if l = ''ru'' \<or> l = ''en'' \<or> l = ''de'' \<or> l = ''pl'' then (None, t\<lparr>t_language := Some l\<rparr>)
      else (Some (AttributeError (''This language "'' @ l @ ''" is not supported'')), t))\<close>
  by (simp add: set_language_def supported_languages_def)

text \<open>C3 as stated fails: the exception for an unsupported language is not an
  \<open>ApiException\<close>.\<close>

theorem set_language_not_ApiException:
  \<open>set_language ''fr'' (HttpTransport_init ''token'' None None)
     = (Some (AttributeError ''This language "fr" is not supported''),
        HttpTransport_init ''token'' None None)
   \<and> \<not> is_ApiException (AttributeError ''This language "fr" is not supported'')\<close>
  by (simp add: set_language_def supported_languages_def)

subsection \<open>The executor\<close>

lemma api_request_returns:
  assumes "respond w (sent w)
             \<lparr>rq_method = a_method a, rq_url = url, rq_kwargs = prepare_request_data cs a\<rparr>
           = Returns r"
  shows "api_request cs url a w =
           ((case body_json r of
               None \<Rightarrow> Inl (JsonException JSONDecodeError)
             | Some content \<Rightarrow>
                 if 400 \<le> status_code r \<and> status_code r < 600
                 then Inl (HttpException (status_code r) content (HTTPError (Some r)))
                 else Inr content),
            w\<lparr>sent := sent w @
               [\<lparr>rq_method = a_method a, rq_url = url, rq_kwargs = prepare_request_data cs a\<rparr>]\<rparr>)"
  using assms
  by (cases "body_json r")
     (simp_all add: api_request_def requests_request_def raise_for_status_def Let_def)

lemma api_request_sent:
  "sent (snd (api_request cs url a w)) =
     sent w @ [\<lparr>rq_method = a_method a, rq_url = url, rq_kwargs = prepare_request_data cs a\<rparr>]"
  by (simp add: api_request_def requests_request_def Let_def
           split: option.splits outcome.splits)

text \<open>
  C7, as amended. For every exchange that returns a response: the body is parsed first,
  so a body that is not JSON raises \<open>JsonException\<close> whatever the status; with a parsed
  body, a status from 400 to 599 raises \<open>HttpException\<close> carrying that status, the
  parsed body and the \<open>HTTPError\<close> that \<open>raise_for_status\<close> raised for the response; with
  any other status (2xx, and also 1xx, 3xx and 600 and above) the parsed body is returned.
\<close>

theorem api_request_status:
  assumes "respond w (sent w)
             \<lparr>rq_method = a_method a, rq_url = url, rq_kwargs = prepare_request_data cs a\<rparr>
           = Returns r"
  shows "fst (api_request cs url a w) =
           (case body_json r of
              None \<Rightarrow> Inl (JsonException JSONDecodeError)
            | Some content \<Rightarrow>
                if 400 \<le> status_code r \<and> status_code r < 600
                then Inl (HttpException (status_code r) content (HTTPError (Some r)))
                else Inr content)"
  by (simp add: api_request_returns[OF assms])

theorem api_request_status_witness:
  "fst (api_request cs0 ''https://api.admitad.com/announcements/'' default_args
          (answering 404 (Some (JObj [(''detail'', JStr ''not found'')]))))
   = Inl (HttpException 404 (JObj [(''detail'', JStr ''not found'')])
            (HTTPError (Some \<lparr>status_code = 404,
                                body_json = Some (JObj [(''detail'', JStr ''not found'')])\<rparr>)))"
  using api_request_status[of "answering 404 (Some (JObj [(''detail'', JStr ''not found'')]))"
          default_args "''https://api.admitad.com/announcements/''" cs0
          "\<lparr>status_code = 404, body_json = Some (JObj [(''detail'', JStr ''not found'')])\<rparr>"]
  by (simp add: answering_def)

text \<open>C7 as stated fails: a status outside 2xx that is no client or server error, here
  300 with a JSON body, raises nothing; the parsed body is returned.\<close>

theorem api_request_redirect_status:
  "fst (api_request cs0 ''https://api.admitad.com/announcements/'' default_args
          (answering 300 (Some (JObj [(''detail'', JStr ''multiple choices'')]))))
   = Inr (JObj [(''detail'', JStr ''multiple choices'')])"
  by (simp add: api_request_def requests_request_def raise_for_status_def answering_def Let_def)

text \<open>
  C8. For every exchange that returns a response whose body is not valid JSON,
  \<open>api_request\<close> raises \<open>JsonException\<close> (the spec's DecodeError) and not
  \<open>HttpException\<close>, whatever the status code, 200 included.
\<close>

theorem api_request_not_json:
  assumes "respond w (sent w)
             \<lparr>rq_method = a_method a, rq_url = url, rq_kwargs = prepare_request_data cs a\<rparr>
           = Returns r"
      and "body_json r = None"
  shows "fst (api_request cs url a w) = Inl (JsonException JSONDecodeError)
         \<and> \<not> raises is_HttpException (fst (api_request cs url a w))"
  by (simp add: api_request_returns[OF assms(1)] assms(2) raises_def)

theorem api_request_not_json_witness:
  "fst (api_request cs0 ''https://api.admitad.com/announcements/'' default_args (answering 200 None))
     = Inl (JsonException JSONDecodeError)
   \<and> \<not> raises is_HttpException
        (fst (api_request cs0 ''https://api.admitad.com/announcements/'' default_args (answering 200 None)))"
  using api_request_not_json[of "answering 200 None" default_args
          "''https://api.admitad.com/announcements/''" cs0 "\<lparr>status_code = 200, body_json = None\<rparr>"]
  by (simp add: answering_def raises_def)

lemma init0: "OAuthServerAuthorisation_init cs0 data0 = Inr oauth0"
  by (simp add: OAuthServerAuthorisation_init_def data0_def oauth0_def cs0_def)

lemma init_state_None:
  "OAuthServerAuthorisation_init cs data = Inr self \<Longrightarrow> state self = None"
  by (auto simp add: OAuthServerAuthorisation_init_def split: option.splits)

lemma get_authorize_url_state:
  "state (snd (get_authorize_url cs urlencode hex self)) = Some hex"
  by (simp add: get_authorize_url_def Let_def split: sum.splits)

subsection \<open>The authorization-code flow\<close>

text \<open>
  C1. For every authorization object, after \<open>get_authorize_url\<close> has stored the token
  \<open>hex\<close>, and every redirect URL whose query lacks a \<open>state\<close> parameter or carries one
  different from \<open>hex\<close>, \<open>get_access_token\<close> raises \<open>ApiException\<close> and the network is
  as before: no request is sent. The method assigns no attribute, so the object is
  untouched.
\<close>

theorem get_access_token_wrong_state:
  assumes "dict_of pairs ''state'' = None \<or> dict_of pairs ''state'' \<noteq> Some hex"
  shows "get_access_token cs (snd (get_authorize_url cs urlencode hex self)) pairs w =
           (Inl (ApiException ''Wrong or absent the state parameter.''), w)"
  using assms
  by (auto simp add: get_access_token_def get_authorize_url_state truthy_def Let_def)

theorem get_access_token_wrong_state_witness:
  "get_access_token cs0 (snd (get_authorize_url cs0 urlencode0 ''0123abcd'' oauth0))
     [(''code'', ''c1''), (''state'', ''ffff0000'')] token_world
   = (Inl (ApiException ''Wrong or absent the state parameter.''), token_world)
   \<and> get_access_token cs0 (snd (get_authorize_url cs0 urlencode0 ''0123abcd'' oauth0))
     [(''code'', ''c1'')] token_world
   = (Inl (ApiException ''Wrong or absent the state parameter.''), token_world)"
  using get_access_token_wrong_state[of "[(''code'', ''c1''), (''state'', ''ffff0000'')]"
          "''0123abcd''" cs0 urlencode0 oauth0 token_world]
        get_access_token_wrong_state[of "[(''code'', ''c1'')]"
          "''0123abcd''" cs0 urlencode0 oauth0 token_world]
  by (simp add: dict_of_def)

text \<open>
  C10. For every authorization object whose stored state is \<open>None\<close>, as \<open>__init__\<close>
  leaves it (\<open>init_state_None\<close>), \<open>get_access_token\<close> raises \<open>ApiException\<close> for
  every redirect URL, also one with \<open>error\<close> or \<open>code\<close> parameters, and sends no
  request.
\<close>

theorem get_access_token_no_state_stored:
  assumes "state self = None"
  shows "get_access_token cs self pairs w =
           (Inl (ApiException ''Wrong or absent the state parameter.''), w)"
  using assms
  by (auto simp add: get_access_token_def truthy_def Let_def split: option.splits)

theorem get_access_token_no_state_stored_witness:
  "OAuthServerAuthorisation_init cs0 data0 = Inr oauth0
   \<and> get_access_token cs0 oauth0 [(''state'', ''0123abcd''), (''code'', ''c1'')] token_world
     = (Inl (ApiException ''Wrong or absent the state parameter.''), token_world)
   \<and> get_access_token cs0 oauth0 [(''error'', ''access_denied'')] token_world
     = (Inl (ApiException ''Wrong or absent the state parameter.''), token_world)"
  using get_access_token_no_state_stored[of oauth0 cs0
          "[(''state'', ''0123abcd''), (''code'', ''c1'')]" token_world]
        get_access_token_no_state_stored[of oauth0 cs0
          "[(''error'', ''access_denied'')]" token_world]
        init0
  by (simp add: oauth0_def)

lemma api_post_request_sent:
  "sent (snd (api_post_request cs u
            (default_args\<lparr>a_data := Some params, a_headers := Some headers\<rparr>) w)) =
     sent w @ [token_request cs u params headers]"
  by (simp add: api_post_request_def api_request_sent token_request_def
        prepare_request_data_def default_args_def)

lemma get_access_token_world:
  assumes "dict_of pairs ''state'' = Some s" and "s \<noteq> []" and "state self = Some s"
      and "dict_of pairs ''error'' = None" and "dict_of pairs ''code'' = Some code"
      and "prepare_api_url cs (TOKEN_URL cs) (Some (language self)) = Inr u"
  shows "snd (get_access_token cs self pairs w) =
         snd (api_post_request cs u
               (default_args\<lparr>a_data := Some [''grant_type'' \<mapsto> Some ''authorization_code'',
                                              ''client_id'' \<mapsto> Some (client_id self),
                                              ''client_secret'' \<mapsto> Some (client_secret self),
                                              ''code'' \<mapsto> Some code,
                                              ''redirect_uri'' \<mapsto> redirect_uri self],
                              a_headers := Some [''Content-Type'' \<mapsto> form_content_type]\<rparr>) w)"
  using assms
  by (simp add: get_access_token_def truthy_def Let_def
           split: prod.splits sum.splits bool.splits)

lemma password_grant_world:
  assumes "data ''client_id'' = Some cid" and "data ''client_secret'' = Some secret"
      and "data ''username'' = Some username" and "data ''password'' = Some password"
      and "data ''scopes'' = Some scope"
      and "prepare_api_url cs (TOKEN_URL cs)
             (Some (case data ''language'' of None \<Rightarrow> DEFAULT_LANGUAGE cs | Some l \<Rightarrow> l)) = Inr u"
  shows "sent (snd (oauth_password_authorization cs data w)) =
         sent w @ [token_request cs u
                     [''grant_type'' \<mapsto> Some ''password'', ''client_id'' \<mapsto> Some cid,
                      ''username'' \<mapsto> Some username, ''password'' \<mapsto> Some password,
                      ''scope'' \<mapsto> Some scope]
                     (basic_headers cid secret)]"
  using assms
  by (simp add: oauth_password_authorization_def Let_def api_post_request_sent)

lemma client_grant_world:
  assumes "data ''client_id'' = Some cid" and "data ''client_secret'' = Some secret"
      and "data ''scopes'' = Some scope"
      and "prepare_api_url cs (TOKEN_URL cs)
             (Some (case data ''language'' of None \<Rightarrow> DEFAULT_LANGUAGE cs | Some l \<Rightarrow> l)) = Inr u"
  shows "sent (snd (oauth_client_authorization cs data w)) =
         sent w @ [token_request cs u
                     [''grant_type'' \<mapsto> Some ''client_credentials'', ''client_id'' \<mapsto> Some cid,
                      ''scope'' \<mapsto> Some scope]
                     (basic_headers cid secret)]"
  using assms
  by (simp add: oauth_client_authorization_def Let_def api_post_request_sent)

lemma b64_example: "b64encode ''id:secret'' = ''aWQ6c2VjcmV0''"
  by (simp add: b64encode_def b64_char_def b64_alphabet_def)

lemma basic_headers_authorization:
  "basic_headers cid secret ''Authorization'' = Some (''Basic '' @ b64encode (cid @ '':'' @ secret))"
  by (simp add: basic_headers_def)


text \<open>
  C6. When the \<open>state\<close> parameter is non-empty and equal to the stored one, there is no
  \<open>error\<close> parameter, there is a \<open>code\<close> parameter and the token URL formats to \<open>u\<close>,
  \<open>get_access_token\<close> sends exactly one request: a \<open>POST\<close> to \<open>u\<close> with the body
  \<open>grant_type = authorization_code\<close>, \<open>client_id\<close>, \<open>client_secret\<close>, \<open>code\<close>,
  \<open>redirect_uri\<close> and the single header \<open>Content-Type\<close> of a form, so without an
  \<open>Authorization\<close> header. The password and client-credentials grants send their one
  \<open>POST\<close> with the headers of \<open>basic_headers\<close>, whose \<open>Authorization\<close> is \<open>Basic\<close>
  followed by the base64 of \<open>client_id:client_secret\<close>.
\<close>

theorem get_access_token_request:
  assumes "dict_of pairs ''state'' = Some s" and "s \<noteq> []" and "state self = Some s"
      and "dict_of pairs ''error'' = None" and "dict_of pairs ''code'' = Some code"
      and "prepare_api_url cs (TOKEN_URL cs) (Some (language self)) = Inr u"
  shows "sent (snd (get_access_token cs self pairs w)) =
           sent w @ [token_request cs u
                       [''grant_type'' \<mapsto> Some ''authorization_code'',
                        ''client_id'' \<mapsto> Some (client_id self),
                        ''client_secret'' \<mapsto> Some (client_secret self),
                        ''code'' \<mapsto> Some code,
                        ''redirect_uri'' \<mapsto> redirect_uri self]
                       [''Content-Type'' \<mapsto> ''application/x-www-form-urlencoded'']]
         \<and> [''Content-Type'' \<mapsto> ''application/x-www-form-urlencoded''] ''Authorization'' = None
         \<and> (\<forall>data cid secret username password scope u'.
              data ''client_id'' = Some cid \<longrightarrow> data ''client_secret'' = Some secret \<longrightarrow>
              data ''username'' = Some username \<longrightarrow> data ''password'' = Some password \<longrightarrow>
              data ''scopes'' = Some scope \<longrightarrow>
              prepare_api_url cs (TOKEN_URL cs)
                (Some (case data ''language'' of None \<Rightarrow> DEFAULT_LANGUAGE cs | Some l \<Rightarrow> l)) = Inr u' \<longrightarrow>
              sent (snd (oauth_password_authorization cs data w)) =
                sent w @ [token_request cs u'
                     [''grant_type'' \<mapsto> Some ''password'', ''client_id'' \<mapsto> Some cid,
                      ''username'' \<mapsto> Some username, ''password'' \<mapsto> Some password,
                      ''scope'' \<mapsto> Some scope]
                     (basic_headers cid secret)])
         \<and> (\<forall>data cid secret scope u'.
              data ''client_id'' = Some cid \<longrightarrow> data ''client_secret'' = Some secret \<longrightarrow>
              data ''scopes'' = Some scope \<longrightarrow>
              prepare_api_url cs (TOKEN_URL cs)
                (Some (case data ''language'' of None \<Rightarrow> DEFAULT_LANGUAGE cs | Some l \<Rightarrow> l)) = Inr u' \<longrightarrow>
              sent (snd (oauth_client_authorization cs data w)) =
                sent w @ [token_request cs u'
                     [''grant_type'' \<mapsto> Some ''client_credentials'', ''client_id'' \<mapsto> Some cid,
                      ''scope'' \<mapsto> Some scope]
                     (basic_headers cid secret)])
         \<and> (\<forall>cid secret. basic_headers cid secret ''Authorization'' =
                Some (''Basic '' @ b64encode (cid @ '':'' @ secret)))"
proof -
  have a: "sent (snd (get_access_token cs self pairs w)) =
           sent w @ [token_request cs u
                       [''grant_type'' \<mapsto> Some ''authorization_code'',
                        ''client_id'' \<mapsto> Some (client_id self),
                        ''client_secret'' \<mapsto> Some (client_secret self),
                        ''code'' \<mapsto> Some code,
                        ''redirect_uri'' \<mapsto> redirect_uri self]
                       [''Content-Type'' \<mapsto> ''application/x-www-form-urlencoded'']]"
    using get_access_token_world[OF assms, of w]
    by (simp add: api_post_request_sent form_content_type_def)
  have b: "[''Content-Type'' \<mapsto> ''application/x-www-form-urlencoded''] ''Authorization'' = None"
    by simp
  have c: "\<forall>data cid secret username password scope u'.
              data ''client_id'' = Some cid \<longrightarrow> data ''client_secret'' = Some secret \<longrightarrow>
              data ''username'' = Some username \<longrightarrow> data ''password'' = Some password \<longrightarrow>
              data ''scopes'' = Some scope \<longrightarrow>
              prepare_api_url cs (TOKEN_URL cs)
                (Some (case data ''language'' of None \<Rightarrow> DEFAULT_LANGUAGE cs | Some l \<Rightarrow> l)) = Inr u' \<longrightarrow>
              sent (snd (oauth_password_authorization cs data w)) =
                sent w @ [token_request cs u'
                     [''grant_type'' \<mapsto> Some ''password'', ''client_id'' \<mapsto> Some cid,
                      ''username'' \<mapsto> Some username, ''password'' \<mapsto> Some password,
                      ''scope'' \<mapsto> Some scope]
                     (basic_headers cid secret)]"
    by (intro allI impI) (rule password_grant_world)
  have d: "\<forall>data cid secret scope u'.
              data ''client_id'' = Some cid \<longrightarrow> data ''client_secret'' = Some secret \<longrightarrow>
              data ''scopes'' = Some scope \<longrightarrow>
              prepare_api_url cs (TOKEN_URL cs)
                (Some (case data ''language'' of None \<Rightarrow> DEFAULT_LANGUAGE cs | Some l \<Rightarrow> l)) = Inr u' \<longrightarrow>
              sent (snd (oauth_client_authorization cs data w)) =
                sent w @ [token_request cs u'
                     [''grant_type'' \<mapsto> Some ''client_credentials'', ''client_id'' \<mapsto> Some cid,
                      ''scope'' \<mapsto> Some scope]
                     (basic_headers cid secret)]"
    by (intro allI impI) (rule client_grant_world)
  have e: "\<forall>cid secret. basic_headers cid secret ''Authorization'' =
                Some (''Basic '' @ b64encode (cid @ '':'' @ secret))"
    by (intro allI) (rule basic_headers_authorization)
  from a b c d e show ?thesis by (intro conjI)
qed

theorem get_access_token_request_witness:
  "sent (snd (get_access_token cs0 (snd (get_authorize_url cs0 urlencode0 ''0123abcd'' oauth0))
                [(''state'', ''0123abcd''), (''code'', ''c1'')] token_world))
   = [token_request cs0 ''https://api.admitad.com/ru/token/''
        [''grant_type'' \<mapsto> Some ''authorization_code'', ''client_id'' \<mapsto> Some ''id'',
         ''client_secret'' \<mapsto> Some ''secret'', ''code'' \<mapsto> Some ''c1'',
         ''redirect_uri'' \<mapsto> Some ''https://example.com/cb'']
        [''Content-Type'' \<mapsto> ''application/x-www-form-urlencoded'']]
   \<and> sent (snd (oauth_password_authorization cs0 grant_data token_world))
   = [token_request cs0 ''https://api.admitad.com/ru/token/''
        [''grant_type'' \<mapsto> Some ''password'', ''client_id'' \<mapsto> Some ''id'',
         ''username'' \<mapsto> Some ''user'', ''password'' \<mapsto> Some ''pass'',
         ''scope'' \<mapsto> Some ''public_data'']
        (basic_headers ''id'' ''secret'')]
   \<and> sent (snd (oauth_client_authorization cs0 grant_data token_world))
   = [token_request cs0 ''https://api.admitad.com/ru/token/''
        [''grant_type'' \<mapsto> Some ''client_credentials'', ''client_id'' \<mapsto> Some ''id'',
         ''scope'' \<mapsto> Some ''public_data'']
        (basic_headers ''id'' ''secret'')]
   \<and> basic_headers ''id'' ''secret'' ''Authorization'' = Some ''Basic aWQ6c2VjcmV0''"
proof -
  have u: "prepare_api_url cs0 (TOKEN_URL cs0) (Some ''ru'') = Inr ''https://api.admitad.com/ru/token/''"
    by (simp add: prepare_api_url_def pyformat_def py_or_def cs0_def)
  have st: "state (snd (get_authorize_url cs0 urlencode0 ''0123abcd'' oauth0)) = Some ''0123abcd''"
    by (simp add: get_authorize_url_def Let_def split: sum.splits)
  have lang: "language (snd (get_authorize_url cs0 urlencode0 ''0123abcd'' oauth0)) = ''ru''"
    by (simp add: get_authorize_url_def Let_def oauth0_def split: sum.splits)
  have flds: "client_id (snd (get_authorize_url cs0 urlencode0 ''0123abcd'' oauth0)) = ''id''"
    "client_secret (snd (get_authorize_url cs0 urlencode0 ''0123abcd'' oauth0)) = ''secret''"
    "redirect_uri (snd (get_authorize_url cs0 urlencode0 ''0123abcd'' oauth0)) = Some ''https://example.com/cb''"
    by (simp_all add: get_authorize_url_def Let_def oauth0_def split: sum.splits)
  have u': "prepare_api_url cs0 (TOKEN_URL cs0)
              (Some (case grant_data ''language'' of None \<Rightarrow> DEFAULT_LANGUAGE cs0 | Some l \<Rightarrow> l))
            = Inr ''https://api.admitad.com/ru/token/''"
    by (simp add: grant_data_def prepare_api_url_def pyformat_def py_or_def cs0_def)
  have w0: "sent token_world = []" by (simp add: token_world_def answering_def)
  note T = get_access_token_request[of "[(''state'', ''0123abcd''), (''code'', ''c1'')]"
             "''0123abcd''" "snd (get_authorize_url cs0 urlencode0 ''0123abcd'' oauth0)"
             "''c1''" cs0 "''https://api.admitad.com/ru/token/''" token_world]
  have T': "dict_of [(''state'', ''0123abcd''), (''code'', ''c1'')] ''state'' = Some ''0123abcd''"
    "dict_of [(''state'', ''0123abcd''), (''code'', ''c1'')] ''error'' = None"
    "dict_of [(''state'', ''0123abcd''), (''code'', ''c1'')] ''code'' = Some ''c1''"
    by (simp_all add: dict_of_def)
  from T[OF T'(1) _ st T'(2) T'(3)] u lang
  have main: "sent (snd (get_access_token cs0 (snd (get_authorize_url cs0 urlencode0 ''0123abcd'' oauth0))
                [(''state'', ''0123abcd''), (''code'', ''c1'')] token_world))
   = [token_request cs0 ''https://api.admitad.com/ru/token/''
        [''grant_type'' \<mapsto> Some ''authorization_code'', ''client_id'' \<mapsto> Some ''id'',
         ''client_secret'' \<mapsto> Some ''secret'', ''code'' \<mapsto> Some ''c1'',
         ''redirect_uri'' \<mapsto> Some ''https://example.com/cb'']
        [''Content-Type'' \<mapsto> ''application/x-www-form-urlencoded'']]"
    and pw: "\<forall>data cid secret username password scope u'.
              data ''client_id'' = Some cid \<longrightarrow> data ''client_secret'' = Some secret \<longrightarrow>
              data ''username'' = Some username \<longrightarrow> data ''password'' = Some password \<longrightarrow>
              data ''scopes'' = Some scope \<longrightarrow>
              prepare_api_url cs0 (TOKEN_URL cs0)
                (Some (case data ''language'' of None \<Rightarrow> DEFAULT_LANGUAGE cs0 | Some l \<Rightarrow> l)) = Inr u' \<longrightarrow>
              sent (snd (oauth_password_authorization cs0 data token_world)) =
                sent token_world @ [token_request cs0 u'
                     [''grant_type'' \<mapsto> Some ''password'', ''client_id'' \<mapsto> Some cid,
                      ''username'' \<mapsto> Some username, ''password'' \<mapsto> Some password,
                      ''scope'' \<mapsto> Some scope]
                     (basic_headers cid secret)]"
    and cl: "\<forall>data cid secret scope u'.
              data ''client_id'' = Some cid \<longrightarrow> data ''client_secret'' = Some secret \<longrightarrow>
              data ''scopes'' = Some scope \<longrightarrow>
              prepare_api_url cs0 (TOKEN_URL cs0)
                (Some (case data ''language'' of None \<Rightarrow> DEFAULT_LANGUAGE cs0 | Some l \<Rightarrow> l)) = Inr u' \<longrightarrow>
              sent (snd (oauth_client_authorization cs0 data token_world)) =
                sent token_world @ [token_request cs0 u'
                     [''grant_type'' \<mapsto> Some ''client_credentials'', ''client_id'' \<mapsto> Some cid,
                      ''scope'' \<mapsto> Some scope]
                     (basic_headers cid secret)]"
    and bh: "\<forall>cid secret. basic_headers cid secret ''Authorization'' =
                Some (''Basic '' @ b64encode (cid @ '':'' @ secret))"
    by (simp_all add: w0 flds)
  have gd: "grant_data ''client_id'' = Some ''id''" "grant_data ''client_secret'' = Some ''secret''"
    "grant_data ''username'' = Some ''user''" "grant_data ''password'' = Some ''pass''"
    "grant_data ''scopes'' = Some ''public_data''"
    by (simp_all add: grant_data_def)
  from pw[rule_format, OF gd(1) gd(2) gd(3) gd(4) gd(5) u']
  have pw': "sent (snd (oauth_password_authorization cs0 grant_data token_world))
   = [token_request cs0 ''https://api.admitad.com/ru/token/''
        [''grant_type'' \<mapsto> Some ''password'', ''client_id'' \<mapsto> Some ''id'',
         ''username'' \<mapsto> Some ''user'', ''password'' \<mapsto> Some ''pass'',
         ''scope'' \<mapsto> Some ''public_data'']
        (basic_headers ''id'' ''secret'')]"
    by (simp add: w0)
  from cl[rule_format, OF gd(1) gd(2) gd(5) u']
  have cl': "sent (snd (oauth_client_authorization cs0 grant_data token_world))
   = [token_request cs0 ''https://api.admitad.com/ru/token/''
        [''grant_type'' \<mapsto> Some ''client_credentials'', ''client_id'' \<mapsto> Some ''id'',
         ''scope'' \<mapsto> Some ''public_data'']
        (basic_headers ''id'' ''secret'')]"
    by (simp add: w0)
  from bh[rule_format, of "''id''" "''secret''"]
  have bh': "basic_headers ''id'' ''secret'' ''Authorization'' = Some ''Basic aWQ6c2VjcmV0''"
    by (simp add: b64_example)
  from main pw' cl' bh' show ?thesis by (intro conjI)
qed

subsection \<open>Calling the request builder\<close>

text \<open>
  C4, as amended. Calling a builder that has no URL stored (\<open>None\<close>, or the empty
  string, which the test \<open>not self._url\<close> treats alike) with an option bag that has no
  \<open>url\<close> raises \<open>AttributeError\<close> (not \<open>ApiException\<close>) and sends no request.
\<close>

theorem call_without_url:
  assumes "\<not> truthy (t_url t)" and "kw_url kw = None"
  shows "raises is_AttributeError (fst (call cs kw t w))
         \<and> \<not> raises is_ApiException (fst (call cs kw t w))
         \<and> snd (snd (call cs kw t w)) = w"
  using assms
  by (cases "kw_language kw")
     (simp_all add: call_def set_language_def raises_def)

theorem call_without_url_witness:
  "raises is_AttributeError (fst (call cs0 no_kwargs (HttpTransport_init ''token'' None None) token_world))
   \<and> \<not> raises is_ApiException (fst (call cs0 no_kwargs (HttpTransport_init ''token'' None None) token_world))
   \<and> snd (snd (call cs0 no_kwargs (HttpTransport_init ''token'' None None) token_world)) = token_world"
  using call_without_url[of "HttpTransport_init ''token'' None None" no_kwargs cs0 token_world]
  by (simp add: HttpTransport_init_def no_kwargs_def truthy_def)

text \<open>C4 as stated fails: the exception for the missing URL is not an
  \<open>ApiException\<close>.\<close>

theorem call_without_url_not_ApiException:
  "call cs0 no_kwargs (HttpTransport_init ''token'' None None) token_world
     = (Inl (AttributeError ''Absent url parameter. Use set_url method''),
        HttpTransport_init ''token'' None None, token_world)
   \<and> \<not> is_ApiException (AttributeError ''Absent url parameter. Use set_url method'')"
  by (simp add: call_def no_kwargs_def HttpTransport_init_def truthy_def)

lemma prepare_api_url_join:
  assumes "\<forall>p\<in>set ps. CHR ''%'' \<notin> set p"
  shows "prepare_api_url cs (join placeholder ps) lang =
           Inr (join (py_or lang (DEFAULT_LANGUAGE cs)) ps)"
  unfolding prepare_api_url_def pyformat_def
  using pyformat_join[OF _ assms] by simp

lemma set_url_placeholder_only:
  assumes "\<forall>p\<in>set ps. CHR ''%'' \<notin> set p"
  shows "set_url cs (join placeholder ps) None t =
           (None, t\<lparr>t_url := Some (join (DEFAULT_LANGUAGE cs) ps)\<rparr>)"
  by (simp add: set_url_def prepare_api_url_join[OF assms] py_or_def)

lemma set_url_stored:
  assumes "\<forall>p\<in>set ps. CHR ''%'' \<notin> set p"
      and "l \<in> set supported_languages" and "t_language t = Some l"
  shows "set_url cs (join placeholder ps) (Some l) t = (None, t\<lparr>t_url := Some (join l ps)\<rparr>)"
proof -
  from assms(2) have ne: "l \<noteq> []" by (auto simp add: supported_languages_def)
  from assms(3) have same: "t\<lparr>t_language := Some l\<rparr> = t" by (cases t) simp
  show ?thesis
    using assms(2) ne same
    by (simp add: set_url_def set_language_def prepare_api_url_join[OF assms(1)] py_or_def)
qed

lemma set_url_forget:
  "map_prod id forget_language (set_url cs url lang (t\<lparr>t_language := l'\<rparr>)) =
   map_prod id forget_language (set_url cs url lang t)"
  by (simp add: set_url_def set_language_def forget_language_def
           split: option.splits sum.splits)

lemma call_forget:
  assumes "kw_url kw = None"
  shows "(case call cs kw (t\<lparr>t_language := l'\<rparr>) w of (r, t', w') \<Rightarrow> (r, forget_language t', w')) =
         (case call cs kw t w of (r, t', w') \<Rightarrow> (r, forget_language t', w'))"
  using assms
  by (simp add: call_def set_language_def forget_language_def
           split: option.splits sum.splits prod.splits)

lemma call_url_stored:
  assumes "\<forall>p\<in>set ps. CHR ''%'' \<notin> set p"
      and "kw_language kw = None" and "kw_url kw = Some (join placeholder ps)"
      and "t_language t = Some l" and "l \<in> set supported_languages"
  shows "fst (snd (call cs kw t w)) = t\<lparr>t_url := Some (join l ps)\<rparr>"
  using assms(2,3,4)
  by (simp add: call_def set_url_stored[OF assms(1,5,4)]
           split: sum.splits prod.splits option.splits)

text \<open>
  C9, as amended. For every template whose only \<open>%\<close> characters are those of
  \<open>%(language)s\<close> placeholders, \<open>set_url(url)\<close> without a language stores the URL with
  \<open>DEFAULT_LANGUAGE\<close> in the place of each placeholder, whatever language the builder has
  stored. Apart from the stored language itself, what \<open>set_url\<close> on such a template,
  \<open>set_method\<close>, \<open>set_data\<close> and a call without \<open>url\<close> in its option bag do is the same
  for every stored language. A call with such a template as \<open>url\<close> in the option bag
  (and no \<open>language\<close>) on a builder that has a supported language stored stores the URL
  with that language in the place of each placeholder.
\<close>

theorem set_url_ignores_stored_language:
  assumes "\<forall>p\<in>set ps. CHR ''%'' \<notin> set p"
  shows "set_url cs (join placeholder ps) None t =
           (None, t\<lparr>t_url := Some (join (DEFAULT_LANGUAGE cs) ps)\<rparr>)
   \<and> map_prod id forget_language (set_url cs (join placeholder ps) lang (t\<lparr>t_language := l'\<rparr>)) =
     map_prod id forget_language (set_url cs (join placeholder ps) lang t)
   \<and> map_prod id forget_language (set_method m (t\<lparr>t_language := l'\<rparr>)) =
     map_prod id forget_language (set_method m t)
   \<and> map_prod id forget_language (set_data d (t\<lparr>t_language := l'\<rparr>)) =
     map_prod id forget_language (set_data d t)
   \<and> (kw_url kw = None \<longrightarrow>
        (case call cs kw (t\<lparr>t_language := l'\<rparr>) w of (r, t', w') \<Rightarrow> (r, forget_language t', w')) =
        (case call cs kw t w of (r, t', w') \<Rightarrow> (r, forget_language t', w')))
   \<and> (kw_language kw = None \<longrightarrow> kw_url kw = Some (join placeholder ps) \<longrightarrow>
      t_language t = Some l \<longrightarrow> l \<in> set supported_languages \<longrightarrow>
        fst (snd (call cs kw t w)) = t\<lparr>t_url := Some (join l ps)\<rparr>)"
proof -
  have m: "map_prod id forget_language (set_method m (t\<lparr>t_language := l'\<rparr>)) =
           map_prod id forget_language (set_method m t)"
    by (simp add: set_method_def forget_language_def)
  have d: "map_prod id forget_language (set_data d (t\<lparr>t_language := l'\<rparr>)) =
           map_prod id forget_language (set_data d t)"
    by (simp add: set_data_def forget_language_def)
  have c: "kw_url kw = None \<longrightarrow>
        (case call cs kw (t\<lparr>t_language := l'\<rparr>) w of (r, t', w') \<Rightarrow> (r, forget_language t', w')) =
        (case call cs kw t w of (r, t', w') \<Rightarrow> (r, forget_language t', w'))"
    by (intro impI) (rule call_forget)
  have s: "kw_language kw = None \<longrightarrow> kw_url kw = Some (join placeholder ps) \<longrightarrow>
      t_language t = Some l \<longrightarrow> l \<in> set supported_languages \<longrightarrow>
        fst (snd (call cs kw t w)) = t\<lparr>t_url := Some (join l ps)\<rparr>"
    by (intro impI) (rule call_url_stored[OF assms])
  from set_url_placeholder_only[OF assms] set_url_forget m d c s
  show ?thesis by (intro conjI)
qed

theorem set_url_ignores_stored_language_witness:
  "t_language german_transport = Some ''de''
   \<and> set_url cs0 ''https://api.admitad.com/%(language)s/announcements/'' None german_transport
     = (None, german_transport\<lparr>t_url := Some ''https://api.admitad.com/ru/announcements/''\<rparr>)
   \<and> fst (snd (call cs0 (url_kwargs ''https://api.admitad.com/%(language)s/announcements/'')
                 german_transport token_world))
     = german_transport\<lparr>t_url := Some ''https://api.admitad.com/de/announcements/''\<rparr>"
  using set_url_ignores_stored_language[of
          "[''https://api.admitad.com/'', ''/announcements/'']" cs0 german_transport
          None None "''GET''" None "url_kwargs ''https://api.admitad.com/%(language)s/announcements/''"
          token_world "''de''"]
  by (simp add: german_transport_def set_language_def supported_languages_def url_kwargs_def
        placeholder_def cs0_def)

text \<open>
  C9 as stated fails: \<open>set_url\<close> does not always store a URL. On a template with the
  placeholder and a second directive, as the resource templates with \<open>%(id)s\<close> have,
  the formatting raises \<open>KeyError\<close> and the builder keeps no URL.
\<close>

theorem set_url_other_directive:
  "set_url cs0 ''https://api.admitad.com/%(language)s/announcements/%(id)s'' None german_transport
     = (Some (KeyError ''id''), german_transport)
   \<and> t_url german_transport = None"
  by (simp add: set_url_def prepare_api_url_def pyformat_def py_or_def german_transport_def
        set_language_def supported_languages_def HttpTransport_init_def)

end
